theory Spec2Isabelle
  imports Main "HOL-Library.AList" "HOL-Library.Sublist"
begin

section \<open>Python string operations used by the extractor\<close>

text \<open>
  Strings are lists of 8-bit characters; the schema text is taken to be ASCII, which is
  all the grammar's token classes accept. \<open>str.capitalize\<close> upper-cases the first
  character and lower-cases the others; \<open>string.capwords(s, sep)\<close> is
  \<open>sep.join(x.capitalize() for x in s.split(sep))\<close>.
\<close>

definition ascii_lowercase :: string where
  "ascii_lowercase = ''abcdefghijklmnopqrstuvwxyz''"

definition ascii_uppercase :: string where
  "ascii_uppercase = ''ABCDEFGHIJKLMNOPQRSTUVWXYZ''"

definition upper :: "char \<Rightarrow> char" where
  "upper c = (case map_of (zip ascii_lowercase ascii_uppercase) c of
                Some u \<Rightarrow> u | None \<Rightarrow> c)"

definition lower :: "char \<Rightarrow> char" where
  "lower c = (case map_of (zip ascii_uppercase ascii_lowercase) c of
                Some l \<Rightarrow> l | None \<Rightarrow> c)"

fun capitalize :: "string \<Rightarrow> string" where
  "capitalize [] = []"
| "capitalize (c # cs) = upper c # map lower cs"

fun split :: "char \<Rightarrow> string \<Rightarrow> string list" where
  "split sep [] = [[]]"
| "split sep (c # cs) =
     (if c = sep then [] # split sep cs
      else (case split sep cs of
              w # ws \<Rightarrow> (c # w) # ws
            | [] \<Rightarrow> [[c]]))"

fun join :: "string \<Rightarrow> string list \<Rightarrow> string" where
  "join sep [] = []"
| "join sep [w] = w"
| "join sep (w # v # ws) = w @ sep @ join sep (v # ws)"

definition capwords :: "string \<Rightarrow> char \<Rightarrow> string" where
  "capwords s sep = join [sep] (map capitalize (split sep s))"

definition replace :: "char \<Rightarrow> char \<Rightarrow> string \<Rightarrow> string" where
  "replace old new s = map (\<lambda>c. if c = old then new else c) s"

definition endswith :: "string \<Rightarrow> string \<Rightarrow> bool" where
  "endswith s suf = suffix suf s"

section \<open>Data model\<close>

text \<open>
  \<open>class Message\<close>: an id and a dict from field name to field number. The dict is an
  association list with distinct keys, \<open>fields[id] = number\<close> is \<open>AList.update\<close>: a
  new key goes to the end, an existing key keeps its place and takes the new value,
  as in a Python dict. The attributes \<open>id\<close> and \<open>fields\<close> are named \<open>msg_id\<close> and \<open>msg_fields\<close>
  here (both names are taken in HOL).
\<close>

record Message =
  msg_id :: string
  msg_fields :: "(string \<times> string) list"

definition Message_init :: "string \<Rightarrow> Message" where
  "Message_init i = \<lparr>msg_id = i, msg_fields = []\<rparr>"

definition addField :: "Message \<Rightarrow> string \<Rightarrow> string \<Rightarrow> Message" where
  "addField m i number = m\<lparr>msg_fields := AList.update i number (msg_fields m)\<rparr>"

text \<open>
  \<open>class Command\<close>: each element of \<open>oneOf\<close> is the dict
  \<open>{'id': id, 'type': msgType, 'number': number}\<close>.
\<close>

record oneOfEntry =
  entry_id :: string
  entry_type :: string
  entry_number :: string

record Command =
  commandId :: string
  serviceId :: string
  oneOf :: "oneOfEntry list"

definition Command_init :: "string \<Rightarrow> string \<Rightarrow> Command" where
  "Command_init i sid = \<lparr>commandId = i, serviceId = sid, oneOf = []\<rparr>"

definition addOneOf :: "Command \<Rightarrow> string \<Rightarrow> string \<Rightarrow> string \<Rightarrow> Command" where
  "addOneOf cmd i msgType number =
     cmd\<lparr>oneOf := oneOf cmd @ [\<lparr>entry_id = i, entry_type = msgType, entry_number = number\<rparr>]\<rparr>"

section \<open>Parse results\<close>

text \<open>
  The extractor walks pyparsing \<open>ParseResults\<close>. It only iterates over lists of
  groups and, on each group, tests a results name (\<open>NAME in item\<close>) and reads it
  (\<open>item[NAME]\<close>). A group is therefore modelled by its eight results names, each
  absent (\<open>None\<close>) or present with its value; the selectors carry the names of the
  source's constants. The value of \<open>fieldType\<close> is a string or a non-empty
  \<open>ParseResults\<close> of strings, the two cases \<open>extractCmdContent\<close> tells apart.
\<close>

datatype fieldType = TypeStr string | TypeResults string "string list"

datatype item = Item
  (PACKAGE_NAME_RES: "string option")
  (MSG_ID_RES: "string option")
  (MSG_BODY_RES: "item list option")
  (ONEOF_BODY_RES: "item list option")
  (FIELD_ID_RES: "string option")
  (FIELD_TYPE_RES: "fieldType option")
  (FIELD_NB_RES: "string option")
  (ENUM_ID_RES: "string option")

section \<open>Model extractor\<close>

fun getPackageName :: "item list \<Rightarrow> string" where
  "getPackageName [] = []"
| "getPackageName (item # parseResults) =
     (case PACKAGE_NAME_RES item of
        Some p \<Rightarrow> p
      | None \<Rightarrow> getPackageName parseResults)"

fun getBaseName :: "item list \<Rightarrow> string" where
  "getBaseName [] = []"
| "getBaseName (item # parseResults) =
     (case PACKAGE_NAME_RES item of
        Some p \<Rightarrow> replace (CHR ''.'') (CHR ''_'') (capwords p (CHR ''.''))
      | None \<Rightarrow> getBaseName parseResults)"

text \<open>
  \<open>_extractMessages\<close> (an Isabelle name cannot start with an underscore). The Python
  function appends to the shared list \<open>messages\<close> and adds fields to the object
  \<open>parentMessage\<close>; the model takes both and returns both. The four \<open>if\<close>
  statements of the loop body are the steps \<open>st1\<close> (message definition),
  \<open>st2\<close> (\<open>extractEnumDefn\<close>), \<open>st3\<close> (oneof body) and \<open>st4\<close>
  (\<open>extractFieldDefn\<close>), run in this order on every item.
  A message object is appended after the recursive call on its body returns, and no
  reference to it is used afterwards, so the appended value is its final state.
\<close>

definition qualifiedId :: "string \<Rightarrow> Message option \<Rightarrow> string \<Rightarrow> string" where
  "qualifiedId baseName parentMessage messageId =
     (case parentMessage of
        None \<Rightarrow> baseName @ ''_'' @ messageId
      | Some p \<Rightarrow> msg_id p @ ''.'' @ messageId)"

definition extractEnumDefn ::
  "item \<Rightarrow> string \<Rightarrow> Message list \<times> Message option \<Rightarrow> Message list \<times> Message option" where
  "extractEnumDefn item baseName st =
     (case ENUM_ID_RES item of
        Some e \<Rightarrow> (fst st @ [Message_init (qualifiedId baseName (snd st) e)], snd st)
      | None \<Rightarrow> st)"

definition extractFieldDefn ::
  "item \<Rightarrow> Message list \<times> Message option \<Rightarrow> Message list \<times> Message option" where
  "extractFieldDefn item st =
     (case (FIELD_ID_RES item, FIELD_NB_RES item) of
        (Some i, Some n) \<Rightarrow>
          (case snd st of
             Some p \<Rightarrow> (fst st, Some (addField p i n))
           | None \<Rightarrow> st)
      | _ \<Rightarrow> st)"

fun extractMessages_rec ::
  "item list \<Rightarrow> Message list \<Rightarrow> string \<Rightarrow> Message option \<Rightarrow> Message list \<times> Message option" where
  "extractMessages_rec [] messages baseName parentMessage = (messages, parentMessage)"
| "extractMessages_rec (Item pn mi mb ob fi ft fnb ei # resultItem) messages baseName parentMessage =
     (let item = Item pn mi mb ob fi ft fnb ei;
          st1 = (case (mi, mb) of
                   (Some n, Some body) \<Rightarrow>
                     (let messageId = qualifiedId baseName parentMessage n;
                          message = Message_init messageId;
                          r = extractMessages_rec body messages messageId (Some message)
                      in (fst r @ [case snd r of Some m \<Rightarrow> m | None \<Rightarrow> message], parentMessage))
                 | _ \<Rightarrow> (messages, parentMessage));
          st2 = extractEnumDefn item baseName st1;
          st3 = (case ob of
                   Some obody \<Rightarrow> extractMessages_rec obody (fst st2) baseName (snd st2)
                 | None \<Rightarrow> st2);
          st4 = extractFieldDefn item st3
      in extractMessages_rec resultItem (fst st4) baseName (snd st4))"

definition extractMessages :: "item list \<Rightarrow> string \<Rightarrow> Message list" where
  "extractMessages parseResults baseName =
     fst (extractMessages_rec parseResults [] baseName None)"

text \<open>
  \<open>normalizeType\<close>: two passes over the message list, the exact match first, then
  the first message whose id ends with \<open>"_" + messageType\<close>.
\<close>

definition normalizeType :: "string \<Rightarrow> string \<Rightarrow> Message list \<Rightarrow> string" where
  "normalizeType messageType parentType messages =
     (case find (\<lambda>message. msg_id message = parentType @ ''.'' @ messageType) messages of
        Some message \<Rightarrow> msg_id message
      | None \<Rightarrow>
          (case find (\<lambda>message. endswith (msg_id message) (''_'' @ messageType)) messages of
             Some message \<Rightarrow> msg_id message
           | None \<Rightarrow> messageType))"

text \<open>
  \<open>extractCmdContent\<close>: the inner loop over the items of one oneof body, then the
  outer loop over the items of the container's body.
\<close>

fun extractOneOfItems :: "item list \<Rightarrow> Command \<Rightarrow> Message list \<Rightarrow> Command" where
  "extractOneOfItems [] cmd messages = cmd"
| "extractOneOfItems (oneOfItem # rest) cmd messages =
     extractOneOfItems rest
       (case (FIELD_ID_RES oneOfItem, FIELD_NB_RES oneOfItem, FIELD_TYPE_RES oneOfItem) of
          (Some i, Some n, Some t) \<Rightarrow>
            (let fieldType = (case t of TypeResults t0 ts \<Rightarrow> t0 | TypeStr s \<Rightarrow> s);
                 msgType = normalizeType fieldType (commandId cmd) messages
             in addOneOf cmd i msgType n)
        | _ \<Rightarrow> cmd)
       messages"

fun extractCmdContent :: "item list \<Rightarrow> Command \<Rightarrow> Message list \<Rightarrow> Command" where
  "extractCmdContent [] cmd messages = cmd"
| "extractCmdContent (item # resultItem) cmd messages =
     extractCmdContent resultItem
       (case ONEOF_BODY_RES item of
          Some obody \<Rightarrow> extractOneOfItems obody cmd messages
        | None \<Rightarrow> cmd)
       messages"

text \<open>
  \<open>extractCmd\<close>: \<open>cmd\<close> starts as \<open>None\<close> and is overwritten at every
  top-level item that has the results names of a message and the given name.
\<close>

fun extractCmd_loop ::
  "string \<Rightarrow> item list \<Rightarrow> string \<Rightarrow> string \<Rightarrow> Message list \<Rightarrow> Command option \<Rightarrow> Command option" where
  "extractCmd_loop name [] packageName baseName messages cmd = cmd"
| "extractCmd_loop name (item # parseResults) packageName baseName messages cmd =
     extractCmd_loop name parseResults packageName baseName messages
       (case (MSG_ID_RES item, MSG_BODY_RES item) of
          (Some n, Some body) \<Rightarrow>
            (if n = name then
               (let cmdId = baseName @ ''_'' @ n;
                    sid = packageName @ ''.'' @ n
                in Some (extractCmdContent body (Command_init cmdId sid) messages))
             else cmd)
        | _ \<Rightarrow> cmd)"

definition extractCmd ::
  "string \<Rightarrow> item list \<Rightarrow> string \<Rightarrow> string \<Rightarrow> Message list \<Rightarrow> Command option" where
  "extractCmd name parseResults packageName baseName messages =
     extractCmd_loop name parseResults packageName baseName messages None"

text \<open>The part of \<open>parseFile\<close> that follows the parser.\<close>

definition buildModel :: "item list \<Rightarrow> Message list \<times> Command option \<times> Command option" where
  "buildModel parseResults =
     (let packageName = getPackageName parseResults;
          baseName = getBaseName parseResults;
          messages = extractMessages parseResults baseName;
          command = extractCmd ''Command'' parseResults packageName baseName messages;
          event = extractCmd ''Event'' parseResults packageName baseName messages
      in (messages, command, event))"

section \<open>Grammar engine: pyparsing elements\<close>

text \<open>
  The grammar is built from elements of the pyparsing library. An element is applied
  to the input string at a location and returns the tokens it matched with the
  location after them, or raises. A location is modelled as the pair of the text
  already consumed (in reverse, so that its head is the character before the location)
  and the text that remains; its \<open>position\<close> is pyparsing's integer \<open>loc\<close>.

  An \<open>outcome\<close> is a match (\<open>Ok\<close>), a \<open>ParseException\<close> (which \<open>MatchFirst\<close>,
  \<open>Optional\<close> and \<open>ZeroOrMore\<close> catch) or a \<open>ParseSyntaxException\<close> (which nothing
  catches), each with the position it reports; \<open>Unmodelled\<close> marks the two situations
  described below that the model does not cover. Only the part of the tokens that
  reaches a results name read by the extractor is kept.
\<close>

type_synonym loc = "string \<times> string"

datatype 'a outcome =
    Ok 'a loc
  | ParseException nat
  | ParseSyntaxException nat
  | Unmodelled

type_synonym 'a parser = "loc \<Rightarrow> 'a outcome"

definition position :: "loc \<Rightarrow> nat" where
  "position l = length (fst l)"

definition remaining :: "loc \<Rightarrow> nat" where
  "remaining l = length (snd l)"

definition tab :: char where "tab = CHR 0x09"
definition newline :: char where "newline = CHR 0x0A"
definition carriage_return :: char where "carriage_return = CHR 0x0D"
definition backslash :: char where "backslash = CHR 0x5C"
definition double_quote :: char where "double_quote = CHR 0x22"
definition single_quote :: char where "single_quote = CHR 0x27"

definition whiteChars :: string where
  "whiteChars = [CHR '' '', newline, tab, carriage_return]"

definition nums :: string where "nums = ''0123456789''"
definition alphas :: string where "alphas = ascii_uppercase @ ascii_lowercase"
definition alphanums :: string where "alphanums = alphas @ nums"
definition hexnums :: string where "hexnums = nums @ ''ABCDEFabcdef''"
definition identChars :: string where "identChars = alphanums @ ''_$''"

text \<open>\<open>str.expandtabs()\<close>, which \<open>parseString\<close> applies to the input (tab stops every 8 columns).\<close>

fun expandtabs_from :: "nat \<Rightarrow> string \<Rightarrow> string" where
  "expandtabs_from col [] = []"
| "expandtabs_from col (c # cs) =
     (if c = tab then
        replicate (8 - col mod 8) (CHR '' '') @ expandtabs_from 0 cs
      else if c = newline \<or> c = carriage_return then c # expandtabs_from 0 cs
      else c # expandtabs_from (Suc col) cs)"

definition expandtabs :: "string \<Rightarrow> string" where
  "expandtabs s = expandtabs_from 0 s"

text \<open>
  Before it matches, every element skips what the grammar ignores and then white space
  (\<open>preParse\<close>). \<open>parseFile\<close> makes the grammar ignore \<open>javaStyleComment\<close>: a block
  comment \<open>/* ... */\<close> up to the first \<open>*/\<close>, or a line comment \<open>// ...\<close> up to the end
  of the line (a backslash followed by a newline continues it). An unterminated block
  comment is not a comment.
\<close>

fun startswith :: "string \<Rightarrow> loc \<Rightarrow> loc option" where
  "startswith [] l = Some l"
| "startswith (c # cs) (d, []) = None"
| "startswith (c # cs) (d, x # r) = (if x = c then startswith cs (x # d, r) else None)"

fun skipWhile :: "(char \<Rightarrow> bool) \<Rightarrow> loc \<Rightarrow> loc" where
  "skipWhile P (d, []) = (d, [])"
| "skipWhile P (d, c # r) = (if P c then skipWhile P (c # d, r) else (d, c # r))"

definition skipWhitespace :: "loc \<Rightarrow> loc" where
  "skipWhitespace l = skipWhile (\<lambda>c. c \<in> set whiteChars) l"

fun blockCommentEnd :: "loc \<Rightarrow> loc option" where
  "blockCommentEnd (d, c1 # c2 # r) =
     (if c1 = CHR ''*'' \<and> c2 = CHR ''/'' then Some (c2 # c1 # d, r)
      else blockCommentEnd (c1 # d, c2 # r))"
| "blockCommentEnd (d, r) = None"

fun lineCommentEnd :: "loc \<Rightarrow> loc" where
  "lineCommentEnd (d, c1 # c2 # r) =
     (if c1 = backslash \<and> c2 = newline then lineCommentEnd (c2 # c1 # d, r)
      else if c1 \<noteq> newline then lineCommentEnd (c1 # d, c2 # r)
      else (d, c1 # c2 # r))"
| "lineCommentEnd (d, [c]) = (if c \<noteq> newline then (c # d, []) else (d, [c]))"
| "lineCommentEnd (d, []) = (d, [])"

definition cppStyleComment :: "loc \<Rightarrow> loc option" where
  "cppStyleComment l =
     (let l0 = skipWhitespace l in
      case startswith ''/*'' l0 of
        Some l1 \<Rightarrow> blockCommentEnd l1
      | None \<Rightarrow>
          (case startswith ''//'' l0 of
             Some l1 \<Rightarrow> Some (lineCommentEnd l1)
           | None \<Rightarrow> None))"

lemma startswith_remaining: "startswith s l = Some l' \<Longrightarrow> remaining l' + length s = remaining l"
  by (induction s l rule: startswith.induct) (auto simp: remaining_def split: if_splits)

lemma skipWhile_remaining: "remaining (skipWhile P l) \<le> remaining l"
  by (induction P l rule: skipWhile.induct) (auto simp: remaining_def)

lemma skipWhitespace_remaining: "remaining (skipWhitespace l) \<le> remaining l"
  by (simp add: skipWhitespace_def skipWhile_remaining)

lemma blockCommentEnd_remaining: "blockCommentEnd l = Some l' \<Longrightarrow> remaining l' \<le> remaining l"
  by (induction l rule: blockCommentEnd.induct) (auto simp: remaining_def split: if_splits)

lemma lineCommentEnd_remaining: "remaining (lineCommentEnd l) \<le> remaining l"
  by (induction l rule: lineCommentEnd.induct) (auto simp: remaining_def)

lemma cppStyleComment_remaining:
  assumes "cppStyleComment l = Some l'"
  shows "remaining l' < remaining l"
proof -
  let ?l0 = "skipWhitespace l"
  have l0: "remaining ?l0 \<le> remaining l" by (rule skipWhitespace_remaining)
  show ?thesis
  proof (cases "startswith ''/*'' ?l0")
    case (Some l1)
    then have "blockCommentEnd l1 = Some l'" using assms by (simp add: cppStyleComment_def)
    from blockCommentEnd_remaining[OF this] startswith_remaining[OF Some] l0
    show ?thesis by simp
  next
    case None
    then obtain l1 where l1: "startswith ''//'' ?l0 = Some l1" and l': "l' = lineCommentEnd l1"
      using assms by (auto simp: cppStyleComment_def split: option.splits)
    from lineCommentEnd_remaining[of l1] startswith_remaining[OF l1] l0 l'
    show ?thesis by simp
  qed
qed

function preParse :: "loc \<Rightarrow> loc" where
  "preParse l =
     (case cppStyleComment l of
        Some l' \<Rightarrow> preParse l'
      | None \<Rightarrow> skipWhitespace l)"
  by pat_completeness auto
termination
  by (relation "measure remaining") (auto simp: cppStyleComment_remaining)

declare preParse.simps [simp del]

lemma preParse_remaining: "remaining (preParse l) \<le> remaining l"
proof (induction l rule: preParse.induct)
  case (1 l)
  show ?case
  proof (cases "cppStyleComment l")
    case None
    then show ?thesis by (subst preParse.simps) (simp add: skipWhitespace_remaining)
  next
    case (Some l')
    with 1 cppStyleComment_remaining[OF Some] show ?thesis
      by (subst preParse.simps) simp
  qed
qed


subsection \<open>Tokens\<close>

text \<open>
  \<open>Literal\<close> matches a fixed string, \<open>Suppress\<close> matches it and drops the token.
  \<open>Keyword\<close> matches a fixed string that is neither followed nor preceded by a
  character of \<open>identChars\<close>. \<open>Word\<close> matches one character of \<open>initChars\<close> and then
  the longest run of characters of \<open>bodyChars\<close>. A token that fails raises
  \<open>ParseException\<close> at the location it tried, after the skipped text.
\<close>

definition Literal :: "string \<Rightarrow> string parser" where
  "Literal s l =
     (let l0 = preParse l in
      case startswith s l0 of
        Some l1 \<Rightarrow> Ok s l1
      | None \<Rightarrow> ParseException (position l0))"

definition Suppress :: "string \<Rightarrow> unit parser" where
  "Suppress s l =
     (case Literal s l of
        Ok t l1 \<Rightarrow> Ok () l1
      | ParseException n \<Rightarrow> ParseException n
      | ParseSyntaxException n \<Rightarrow> ParseSyntaxException n
      | Unmodelled \<Rightarrow> Unmodelled)"

definition Keyword :: "string \<Rightarrow> string parser" where
  "Keyword kw l =
     (let l0 = preParse l in
      case startswith kw l0 of
        Some l1 \<Rightarrow>
          (if (case snd l1 of [] \<Rightarrow> True | c # r \<Rightarrow> c \<notin> set identChars)
              \<and> (case fst l0 of [] \<Rightarrow> True | c # d \<Rightarrow> c \<notin> set identChars)
           then Ok kw l1
           else ParseException (position l0))
      | None \<Rightarrow> ParseException (position l0))"

definition Word :: "string \<Rightarrow> string \<Rightarrow> string parser" where
  "Word initChars bodyChars l =
     (let l0 = preParse l in
      case snd l0 of
        [] \<Rightarrow> ParseException (position l0)
      | c # r \<Rightarrow>
          (if c \<in> set initChars then
             Ok (c # takeWhile (\<lambda>x. x \<in> set bodyChars) r)
                (skipWhile (\<lambda>x. x \<in> set bodyChars) (c # fst l0, r))
           else ParseException (position l0)))"

text \<open>\<open>Regex(r"[+-]?\d+")\<close>, with the ASCII digits for \<open>\d\<close>.\<close>

definition Regex_integer :: "string parser" where
  "Regex_integer l =
     (let l0 = preParse l;
          l1 = (case snd l0 of
                  [] \<Rightarrow> l0
                | c # r \<Rightarrow> if c = CHR ''+'' \<or> c = CHR ''-'' then (c # fst l0, r) else l0);
          digits = takeWhile (\<lambda>x. x \<in> set nums) (snd l1)
      in if digits = [] then ParseException (position l0)
         else Ok (take (position l1 - position l0) (snd l0) @ digits)
                 (skipWhile (\<lambda>x. x \<in> set nums) l1))"

text \<open>
  \<open>oneOf("a b c")\<close>: the first of the symbols that the text starts with. (pyparsing
  moves a symbol before any earlier symbol that is a prefix of it; none of the symbols
  of this grammar is a prefix of another.)
\<close>

fun oneOf_symbols :: "string list \<Rightarrow> loc \<Rightarrow> (string \<times> loc) option" where
  "oneOf_symbols [] l = None"
| "oneOf_symbols (symbol # symbols) l =
     (case startswith symbol l of
        Some l1 \<Rightarrow> Some (symbol, l1)
      | None \<Rightarrow> oneOf_symbols symbols l)"

definition pp_oneOf :: "string list \<Rightarrow> string parser" where
  "pp_oneOf symbols l =
     (let l0 = preParse l in
      case oneOf_symbols symbols l0 of
        Some (symbol, l1) \<Rightarrow> Ok symbol l1
      | None \<Rightarrow> ParseException (position l0))"

text \<open>
  \<open>quotedString\<close>: the regular expression of the string body, for the quote character
  \<open>q\<close>, consumes greedily a character other than the quote, newline, carriage return
  and backslash, or a doubled quote, or a backslash with the character after it (for
  \<open>\x\<close>, with at least one hexadecimal digit after it). The closing quote must follow
  immediately.
\<close>

function quotedBody :: "char \<Rightarrow> loc \<Rightarrow> loc" where
  "quotedBody q (d, []) = (d, [])"
| "quotedBody q (d, c # r) =
     (if c = q then
        (case r of
           c2 # r2 \<Rightarrow> if c2 = q then quotedBody q (c2 # c # d, r2) else (d, c # r)
         | [] \<Rightarrow> (d, c # r))
      else if c = newline \<or> c = carriage_return then (d, c # r)
      else if c = backslash then
        (case r of
           [] \<Rightarrow> (d, c # r)
         | c2 # r2 \<Rightarrow>
             if c2 \<noteq> CHR ''x'' then quotedBody q (c2 # c # d, r2)
             else (let h = takeWhile (\<lambda>x. x \<in> set hexnums) r2 in
                   if h = [] then (d, c # r)
                   else quotedBody q (rev h @ c2 # c # d, dropWhile (\<lambda>x. x \<in> set hexnums) r2)))
      else quotedBody q (c # d, r))"
  by pat_completeness auto
termination
  by (relation "measure (\<lambda>(q, l). remaining l)")
     (auto simp: remaining_def intro: le_imp_less_Suc length_dropWhile_le le_SucI)

definition quotedString :: "string parser" where
  "quotedString l =
     (let l0 = preParse l in
      case snd l0 of
        [] \<Rightarrow> ParseException (position l0)
      | c # r \<Rightarrow>
          (if c = double_quote \<or> c = single_quote then
             (let l1 = quotedBody c (c # fst l0, r) in
              case startswith [c] l1 of
                Some l2 \<Rightarrow> Ok (take (position l2 - position l0) (snd l0)) l2
              | None \<Rightarrow> ParseException (position l1))
           else ParseException (position l0)))"


subsection \<open>Combinators\<close>

text \<open>
  \<open>seq\<close> is \<open>+\<close> (\<open>And\<close>), \<open>errorStop\<close> the effect of \<open>-\<close> on everything that
  follows it in the same \<open>And\<close> (a \<open>ParseException\<close> there is raised as
  \<open>ParseSyntaxException\<close>, which no enclosing element catches), \<open>alt\<close> is \<open>|\<close>
  (\<open>MatchFirst\<close>, which reports the first failure with the greatest location when
  every alternative fails), \<open>Optional\<close> and \<open>ZeroOrMore\<close> catch
  \<open>ParseException\<close> only.
\<close>

definition result :: "'a \<Rightarrow> 'a parser" where
  "result a l = Ok a l"

definition seq :: "'a parser \<Rightarrow> ('a \<Rightarrow> 'b parser) \<Rightarrow> 'b parser" where
  "seq p f l =
     (case p l of
        Ok a l1 \<Rightarrow> f a l1
      | ParseException n \<Rightarrow> ParseException n
      | ParseSyntaxException n \<Rightarrow> ParseSyntaxException n
      | Unmodelled \<Rightarrow> Unmodelled)"

definition errorStop :: "'a parser \<Rightarrow> 'a parser" where
  "errorStop p l =
     (case p l of
        ParseException n \<Rightarrow> ParseSyntaxException n
      | r \<Rightarrow> r)"

definition alt :: "'a parser \<Rightarrow> 'a parser \<Rightarrow> 'a parser" where
  "alt p q l =
     (case p l of
        ParseException n \<Rightarrow>
          (case q l of
             ParseException m \<Rightarrow> ParseException (if n < m then m else n)
           | r \<Rightarrow> r)
      | r \<Rightarrow> r)"

definition Optional :: "'a parser \<Rightarrow> 'a option parser" where
  "Optional p l =
     (case p l of
        Ok a l1 \<Rightarrow> Ok (Some a) l1
      | ParseException n \<Rightarrow> Ok None (preParse l)
      | ParseSyntaxException n \<Rightarrow> ParseSyntaxException n
      | Unmodelled \<Rightarrow> Unmodelled)"

text \<open>
  \<open>ZeroOrMore\<close>. pyparsing repeats for as long as the element matches, and never
  returns if the element matches without consuming a character; that case is
  \<open>Unmodelled\<close> here.
\<close>

function ZeroOrMore :: "'a parser \<Rightarrow> 'a list parser" where
  "ZeroOrMore p l =
     (case p l of
        Ok a l1 \<Rightarrow>
          (if remaining l1 < remaining l then
             (case ZeroOrMore p l1 of
                Ok as l2 \<Rightarrow> Ok (a # as) l2
              | r \<Rightarrow> r)
           else Unmodelled)
      | ParseException n \<Rightarrow> Ok [] (preParse l)
      | ParseSyntaxException n \<Rightarrow> ParseSyntaxException n
      | Unmodelled \<Rightarrow> Unmodelled)"
  by pat_completeness auto
termination
  by (relation "measure (\<lambda>(p, l). remaining l)") auto

declare ZeroOrMore.simps [simp del]

lemma seq_cong [fundef_cong]:
  assumes "l = l'" "p l' = p' l'" "\<And>a l1. p' l' = Ok a l1 \<Longrightarrow> f a l1 = f' a l1"
  shows "seq p f l = seq p' f' l'"
  using assms by (auto simp: seq_def split: outcome.splits)

lemma errorStop_cong [fundef_cong]:
  assumes "l = l'" "p l' = p' l'"
  shows "errorStop p l = errorStop p' l'"
  using assms by (simp add: errorStop_def)

lemma alt_cong [fundef_cong]:
  assumes "l = l'" "p l' = p' l'" "q l' = q' l'"
  shows "alt p q l = alt p' q' l'"
  using assms by (simp add: alt_def split: outcome.splits)

lemma ZeroOrMore_cong [fundef_cong]:
  assumes "l = l'" "\<And>l1. remaining l1 \<le> remaining l' \<Longrightarrow> p l1 = p' l1"
  shows "ZeroOrMore p l = ZeroOrMore p' l'"
  unfolding assms(1) using assms(2)
proof (induction p l' rule: ZeroOrMore.induct)
  case (1 p l)
  have eq: "p l = p' l" using 1(2) by simp
  show ?case
  proof (cases "p' l")
    case (Ok a l1)
    show ?thesis
    proof (cases "remaining l1 < remaining l")
      case True
      have "ZeroOrMore p l1 = ZeroOrMore p' l1"
        using 1(1)[of a l1] eq Ok True 1(2) by simp
      then show ?thesis
        using eq Ok True by (subst ZeroOrMore.simps, subst (2) ZeroOrMore.simps) simp
    next
      case False
      then show ?thesis
        using eq Ok by (subst ZeroOrMore.simps, subst (2) ZeroOrMore.simps) simp
    qed
  qed (use eq in \<open>subst ZeroOrMore.simps, subst (2) ZeroOrMore.simps, simp\<close>)+
qed


section \<open>Grammar engine: the grammar of \<open>ProtoParser\<close>\<close>

text \<open>
  The rules of the class \<open>ProtoParser\<close>, in the order and under the names of the source.
  The keyword elements \<open>MESSAGE_\<close>, \<open>ENUM_\<close>, ... that the source creates for the words
  of \<open>kwds\<close> are named \<open>MESSAGE_kw\<close>, \<open>ENUM_kw\<close>, ... here. A rule wrapped in \<open>Group\<close>
  returns the \<open>item\<close> of its results names.
\<close>

definition ident :: "string parser" where
  "ident = Word (alphas @ ''_.'') (alphanums @ ''_.'')"

definition integer :: "string parser" where
  "integer = Regex_integer"

definition LBRACE :: "unit parser" where "LBRACE = Suppress ''{''"
definition RBRACE :: "unit parser" where "RBRACE = Suppress ''}''"
definition LBRACK :: "unit parser" where "LBRACK = Suppress ''[''"
definition RBRACK :: "unit parser" where "RBRACK = Suppress '']''"
definition LPAR :: "unit parser" where "LPAR = Suppress ''(''"
definition RPAR :: "unit parser" where "RPAR = Suppress '')''"
definition EQ :: "unit parser" where "EQ = Suppress ''=''"
definition SEMI :: "unit parser" where "SEMI = Suppress '';''"
definition COMMA :: "unit parser" where "COMMA = Suppress '',''"
definition LESSER :: "unit parser" where "LESSER = Suppress ''<''"
definition GREATER :: "unit parser" where "GREATER = Suppress ''>''"

definition kwds :: "string list" where
  "kwds = [''message'', ''required'', ''optional'', ''repeated'', ''enum'', ''extensions'',
           ''extends'', ''extend'', ''to'', ''package'', ''service'', ''rpc'', ''returns'',
           ''true'', ''false'', ''option'', ''import'', ''syntax'', ''reserved'', ''oneof'',
           ''map'']"

definition MESSAGE_kw :: "string parser" where "MESSAGE_kw = Keyword ''message''"
definition REQUIRED_kw :: "string parser" where "REQUIRED_kw = Keyword ''required''"
definition OPTIONAL_kw :: "string parser" where "OPTIONAL_kw = Keyword ''optional''"
definition REPEATED_kw :: "string parser" where "REPEATED_kw = Keyword ''repeated''"
definition ENUM_kw :: "string parser" where "ENUM_kw = Keyword ''enum''"
definition EXTENSIONS_kw :: "string parser" where "EXTENSIONS_kw = Keyword ''extensions''"
definition EXTEND_kw :: "string parser" where "EXTEND_kw = Keyword ''extend''"
definition TO_kw :: "string parser" where "TO_kw = Keyword ''to''"
definition PACKAGE_kw :: "string parser" where "PACKAGE_kw = Keyword ''package''"
definition SERVICE_kw :: "string parser" where "SERVICE_kw = Keyword ''service''"
definition RPC_kw :: "string parser" where "RPC_kw = Keyword ''rpc''"
definition RETURNS_kw :: "string parser" where "RETURNS_kw = Keyword ''returns''"
definition TRUE_kw :: "string parser" where "TRUE_kw = Keyword ''true''"
definition FALSE_kw :: "string parser" where "FALSE_kw = Keyword ''false''"
definition OPTION_kw :: "string parser" where "OPTION_kw = Keyword ''option''"
definition IMPORT_kw :: "string parser" where "IMPORT_kw = Keyword ''import''"
definition SYNTAX_kw :: "string parser" where "SYNTAX_kw = Keyword ''syntax''"
definition RESERVED_kw :: "string parser" where "RESERVED_kw = Keyword ''reserved''"
definition ONEOF_kw :: "string parser" where "ONEOF_kw = Keyword ''oneof''"
definition MAP_kw :: "string parser" where "MAP_kw = Keyword ''map''"

text \<open>The groups the grammar produces, by the results names they carry.\<close>

definition noNames :: item where
  "noNames = Item None None None None None None None None"

definition messageItem :: "string \<Rightarrow> item list \<Rightarrow> item" where
  "messageItem n body = Item None (Some n) (Some body) None None None None None"

definition oneOfItem :: "item list \<Rightarrow> item" where
  "oneOfItem body = Item None None None (Some body) None None None None"

definition fieldItem :: "string \<Rightarrow> string \<Rightarrow> string \<Rightarrow> item" where
  "fieldItem t i n = Item None None None None (Some i) (Some (TypeStr t)) (Some n) None"

definition enumItem :: "string \<Rightarrow> item" where
  "enumItem e = Item None None None None None None None (Some e)"

definition packageItem :: "string \<Rightarrow> item" where
  "packageItem p = Item (Some p) None None None None None None None"

definition discard :: "'a parser \<Rightarrow> unit parser" where
  "discard p = seq p (\<lambda>a. result ())"

text \<open>
  \<open>mapDefn\<close> and \<open>typespec\<close> return their tokens; the results name \<open>fieldType\<close> set
  on \<open>typespec\<close> holds the first of them (\<open>map\<close> for a map type).
\<close>

definition mapDefn :: "(string \<times> string list) parser" where
  "mapDefn =
     seq MAP_kw (\<lambda>m. errorStop (
     seq LESSER (\<lambda>u.
     seq (pp_oneOf [''int32'', ''int64'', ''uint32'', ''uint64'', ''sint32'', ''sint64'',
                    ''fixed32'', ''fixed64'', ''sfixed32'', ''sfixed64'', ''bool'', ''string'']) (\<lambda>k.
     seq COMMA (\<lambda>u.
     seq ident (\<lambda>v.
     seq GREATER (\<lambda>u.
     result (m, [k, v]))))))))"

definition typespec :: "(string \<times> string list) parser" where
  "typespec =
     alt (seq (pp_oneOf [''double'', ''float'', ''int32'', ''int64'', ''uint32'', ''uint64'',
                         ''sint32'', ''sint64'', ''fixed32'', ''fixed64'', ''sfixed32'',
                         ''sfixed64'', ''bool'', ''string'', ''bytes'']) (\<lambda>t. result (t, [])))
    (alt mapDefn
         (seq ident (\<lambda>t. result (t, []))))"

definition rvalue :: "string parser" where
  "rvalue = alt integer (alt TRUE_kw (alt FALSE_kw ident))"

definition fieldDirective :: "unit parser" where
  "fieldDirective =
     seq LBRACK (\<lambda>u.
     seq (Optional LPAR) (\<lambda>u.
     seq ident (\<lambda>d.
     seq (Optional RPAR) (\<lambda>u.
     seq EQ (\<lambda>u.
     seq (alt rvalue quotedString) (\<lambda>v.
     seq RBRACK (\<lambda>u.
     result ())))))))"

definition fieldDefnPrefix :: "string parser" where
  "fieldDefnPrefix = alt REQUIRED_kw (alt OPTIONAL_kw REPEATED_kw)"

definition fieldDefn :: "item parser" where
  "fieldDefn =
     seq (Optional fieldDefnPrefix) (\<lambda>pre.
     seq typespec (\<lambda>t.
     seq ident (\<lambda>i.
     seq EQ (\<lambda>u.
     seq integer (\<lambda>n.
     seq (ZeroOrMore fieldDirective) (\<lambda>ds.
     seq SEMI (\<lambda>u.
     result (fieldItem (fst t) i n))))))))"

definition optionDirective :: "item parser" where
  "optionDirective =
     seq OPTION_kw (\<lambda>k. errorStop (
     seq (Optional LPAR) (\<lambda>u.
     seq ident (\<lambda>i.
     seq (Optional RPAR) (\<lambda>u.
     seq EQ (\<lambda>u.
     seq (ZeroOrMore quotedString) (\<lambda>vs.
     seq SEMI (\<lambda>u.
     result noNames))))))))"

definition reservedDefn :: "item parser" where
  "reservedDefn =
     seq RESERVED_kw (\<lambda>k. errorStop (
     seq integer (\<lambda>n.
     seq (ZeroOrMore (seq (alt (discard TO_kw) COMMA) (\<lambda>u. integer))) (\<lambda>ns.
     seq SEMI (\<lambda>u.
     result noNames)))))"

definition extensionsDefn :: "item parser" where
  "extensionsDefn =
     seq EXTENSIONS_kw (\<lambda>k. errorStop (
     seq integer (\<lambda>n.
     seq TO_kw (\<lambda>t.
     seq integer (\<lambda>m.
     seq SEMI (\<lambda>u.
     result noNames))))))"

text \<open>
  \<open>enumDefn\<close>. The body is a \<open>Dict\<close>: pyparsing registers the first token of every
  entry of the body (the name of an enum value, \<open>option\<close> or \<open>reserved\<close>) as a
  results name of the enclosing group, beside \<open>enumId\<close>. An entry named like one of
  the results names the extractor reads would be taken for that result; such schemas
  are left out of the model (\<open>Unmodelled\<close>).
\<close>

definition resultsNames :: "string list" where
  "resultsNames = [''packageName'', ''messageId'', ''messageBody'', ''oneOfBody'',
                   ''fieldId'', ''fieldType'', ''fieldNumber'', ''enumId'']"

definition enumEntry :: "string parser" where
  "enumEntry =
     alt (seq ident (\<lambda>k.
          seq EQ (\<lambda>u.
          seq integer (\<lambda>n.
          seq (ZeroOrMore fieldDirective) (\<lambda>ds.
          seq SEMI (\<lambda>u.
          result k))))))
    (alt (seq optionDirective (\<lambda>i. result ''option''))
         (seq reservedDefn (\<lambda>i. result ''reserved'')))"

definition enumGroup :: "string \<Rightarrow> string list \<Rightarrow> item parser" where
  "enumGroup e keys l =
     (if \<exists>k \<in> set keys. k \<in> set resultsNames then Unmodelled else Ok (enumItem e) l)"

definition enumDefn :: "item parser" where
  "enumDefn =
     seq ENUM_kw (\<lambda>k. errorStop (
     seq ident (\<lambda>e.
     seq LBRACE (\<lambda>u.
     seq (ZeroOrMore enumEntry) (\<lambda>keys.
     seq RBRACE (\<lambda>u.
     enumGroup e keys))))))"

definition oneOfBody :: "item list parser" where
  "oneOfBody = ZeroOrMore fieldDefn"

definition oneOfDefn :: "item parser" where
  "oneOfDefn =
     seq ONEOF_kw (\<lambda>k. errorStop (
     seq ident (\<lambda>n.
     seq LBRACE (\<lambda>u.
     seq oneOfBody (\<lambda>body.
     seq RBRACE (\<lambda>u.
     result (oneOfItem body)))))))"

definition methodDefn :: "unit parser" where
  "methodDefn =
     seq RPC_kw (\<lambda>k. errorStop (
     seq ident (\<lambda>n.
     seq LPAR (\<lambda>u.
     seq (Optional ident) (\<lambda>a.
     seq RPAR (\<lambda>u.
     seq RETURNS_kw (\<lambda>r.
     seq LPAR (\<lambda>u.
     seq (Optional ident) (\<lambda>b.
     seq RPAR (\<lambda>u.
     result ()))))))))))"

definition serviceDefn :: "item parser" where
  "serviceDefn =
     seq SERVICE_kw (\<lambda>k. errorStop (
     seq ident (\<lambda>n.
     seq LBRACE (\<lambda>u.
     seq (ZeroOrMore methodDefn) (\<lambda>ms.
     seq RBRACE (\<lambda>u.
     result noNames))))))"

definition syntaxDefn :: "item parser" where
  "syntaxDefn =
     seq SYNTAX_kw (\<lambda>k.
     seq EQ (\<lambda>u. errorStop (
     seq quotedString (\<lambda>v.
     seq SEMI (\<lambda>u.
     result noNames)))))"

definition packageDirective :: "item parser" where
  "packageDirective =
     seq PACKAGE_kw (\<lambda>k. errorStop (
     seq ident (\<lambda>p.
     seq SEMI (\<lambda>u.
     result (packageItem p)))))"

definition importDirective :: "item parser" where
  "importDirective =
     seq IMPORT_kw (\<lambda>k. errorStop (
     seq quotedString (\<lambda>v.
     seq SEMI (\<lambda>u.
     result noNames))))"

lemma Literal_remaining: "Literal s l = Ok a l1 \<Longrightarrow> remaining l1 + length s \<le> remaining l"
  using preParse_remaining[of l]
  by (auto simp: Literal_def Let_def split: option.splits dest!: startswith_remaining)

lemma Suppress_remaining: "Suppress s l = Ok a l1 \<Longrightarrow> remaining l1 + length s \<le> remaining l"
  by (auto simp: Suppress_def split: outcome.splits dest: Literal_remaining)

lemma Keyword_remaining: "Keyword kw l = Ok a l1 \<Longrightarrow> remaining l1 + length kw \<le> remaining l"
  using preParse_remaining[of l]
  by (auto simp: Keyword_def Let_def split: option.splits if_splits dest!: startswith_remaining)

lemma Word_remaining: "Word i b l = Ok a l1 \<Longrightarrow> remaining l1 < remaining l"
proof -
  assume a: "Word i b l = Ok a l1"
  obtain d r where l0: "preParse l = (d, r)" by (cases "preParse l")
  from a l0 obtain c r' where r: "r = c # r'" and l1: "l1 = skipWhile (\<lambda>x. x \<in> set b) (c # d, r')"
    by (auto simp: Word_def Let_def split: list.splits if_splits)
  have "remaining l1 \<le> remaining (c # d, r')" unfolding l1 by (rule skipWhile_remaining)
  moreover have "remaining (c # d, r') < remaining (preParse l)"
    unfolding l0 r by (simp add: remaining_def)
  ultimately show ?thesis using preParse_remaining[of l] by simp
qed

text \<open>
  \<open>messageDefn\<close>, \<open>messageExtension\<close> and \<open>messageBody\<close> (a \<open>Forward\<close> in the source)
  refer to each other. A message body is entered only after the keyword, the name and
  the opening brace have been consumed, which is what the termination proof uses.
\<close>

function messageDefn :: "item parser"
  and messageExtension :: "item parser"
  and messageBody :: "item list parser" where
  "messageDefn l =
     seq MESSAGE_kw (\<lambda>k. errorStop (
     seq ident (\<lambda>n.
     seq LBRACE (\<lambda>u.
     seq messageBody (\<lambda>body.
     seq RBRACE (\<lambda>u.
     result (messageItem n body))))))) l"
| "messageExtension l =
     seq EXTEND_kw (\<lambda>k. errorStop (
     seq ident (\<lambda>n.
     seq LBRACE (\<lambda>u.
     seq messageBody (\<lambda>body.
     seq RBRACE (\<lambda>u.
     result noNames)))))) l"
| "messageBody l =
     ZeroOrMore
       (alt fieldDefn
       (alt enumDefn
       (alt messageDefn
       (alt extensionsDefn
       (alt reservedDefn
       (alt messageExtension
       (alt oneOfDefn
            optionDirective))))))) l"
  by pat_completeness auto
termination
  apply (relation "inv_image (less_than <*lex*> less_than)
         (\<lambda>x. case x of Inl l \<Rightarrow> (remaining l, 0::nat)
                | Inr (Inl l) \<Rightarrow> (remaining l, 0)
                | Inr (Inr l) \<Rightarrow> (remaining l, 1))")
  subgoal by (intro wf_inv_image wf_lex_prod wf_less_than)
  subgoal for l k l1 n l2 u l3
    using Keyword_remaining[of "''message''" l k l1] Word_remaining[of "alphas @ ''_.''" "alphanums @ ''_.''" l1 n l2]
          Suppress_remaining[of "''{''" l2 u l3]
    by (simp add: MESSAGE_kw_def ident_def LBRACE_def)
  subgoal for l k l1 n l2 u l3
    using Keyword_remaining[of "''extend''" l k l1] Word_remaining[of "alphas @ ''_.''" "alphanums @ ''_.''" l1 n l2]
          Suppress_remaining[of "''{''" l2 u l3]
    by (simp add: EXTEND_kw_def ident_def LBRACE_def)
  subgoal by auto
  subgoal by auto
  done

declare messageDefn.simps [simp del] messageExtension.simps [simp del] messageBody.simps [simp del]

definition topLevelStatement :: "item parser" where
  "topLevelStatement =
     alt messageDefn
    (alt messageExtension
    (alt enumDefn
    (alt serviceDefn
    (alt importDirective
    (alt optionDirective
    (alt syntaxDefn
         packageDirective))))))"

text \<open>
  \<open>parseFile\<close>. Its argument is the text read from the file. The parser is
  \<open>ZeroOrMore(topLevelStatement)\<close>, run with \<open>parseAll=False\<close>: what follows the last
  statement it can match is left unparsed. An exception of the parser leaves
  \<open>parseFile\<close> before any model is built.
\<close>

datatype exception =
    Raised_ParseException nat
  | Raised_ParseSyntaxException nat
  | Not_modelled

definition parseFile :: "string \<Rightarrow> exception + (Message list \<times> Command option \<times> Command option)" where
  "parseFile contents =
     (case ZeroOrMore topLevelStatement ([], expandtabs contents) of
        Ok parseResults l \<Rightarrow> Inr (buildModel parseResults)
      | ParseException n \<Rightarrow> Inl (Raised_ParseException n)
      | ParseSyntaxException n \<Rightarrow> Inl (Raised_ParseSyntaxException n)
      | Unmodelled \<Rightarrow> Inl Not_modelled)"

section \<open>Reference definitions for the claims\<close>

text \<open>
  The definitions of this section are not part of the program. They state, in the
  words of the specification, what the extractor is expected to compute, and are
  compared with the program in the theorems below; the sample parse results are
  the inputs of the witnesses.
\<close>


text \<open>\<open>addField\<close> for each pair of a list, in order.\<close>

definition addFields :: "Message \<Rightarrow> (string \<times> string) list \<Rightarrow> Message" where
  "addFields m fs = foldl (\<lambda>m (i, n). addField m i n) m fs"



text \<open>The prefix \<open>_extractMessages\<close> puts before a declared name.\<close>

definition idPrefix :: "string \<Rightarrow> Message option \<Rightarrow> string" where
  "idPrefix baseName parentMessage =
     (case parentMessage of None \<Rightarrow> baseName @ ''_'' | Some p \<Rightarrow> msg_id p @ ''.'')"

text \<open>
  The test of \<open>extractCmd\<close> on a top-level item, and the \<open>Command\<close> it builds from an
  item that passes it.
\<close>

definition isContainer :: "string \<Rightarrow> item \<Rightarrow> bool" where
  "isContainer name item \<longleftrightarrow> MSG_ID_RES item = Some name \<and> MSG_BODY_RES item \<noteq> None"

definition containerCommand :: "item \<Rightarrow> string \<Rightarrow> string \<Rightarrow> Message list \<Rightarrow> Command option" where
  "containerCommand item packageName baseName messages =
     (case (MSG_ID_RES item, MSG_BODY_RES item) of
        (Some n, Some body) \<Rightarrow>
          Some (extractCmdContent body
                  (Command_init (baseName @ ''_'' @ n) (packageName @ ''.'' @ n)) messages)
      | _ \<Rightarrow> None)"

text \<open>Sample parse results.\<close>

definition fieldsSample :: "item list" where
  "fieldsSample =
     [messageItem ''A''
        [messageItem ''B'' [fieldItem ''int32'' ''x'' ''1''],
         oneOfItem [fieldItem ''B'' ''b'' ''2''],
         fieldItem ''int32'' ''y'' ''4'']]"

definition orderSample :: "item list" where
  "orderSample =
     [messageItem ''A''
        [messageItem ''B'' [enumItem ''E'', fieldItem ''E'' ''e'' ''1''],
         enumItem ''F''],
      enumItem ''G'']"

definition duplicateSample :: "item list" where
  "duplicateSample =
     [fieldItem ''int32'' ''x'' ''1'',
      oneOfItem [fieldItem ''A'' ''y'' ''2'', fieldItem ''B'' ''x'' ''3''],
      fieldItem ''int32'' ''y'' ''4'']"

definition twoCommands :: "item list" where
  "twoCommands =
     [messageItem ''Command'' [oneOfItem [fieldItem ''Foo'' ''foo'' ''1'']],
      messageItem ''Foo'' [],
      messageItem ''Command'' [oneOfItem [fieldItem ''Bar'' ''bar'' ''2'']]]"

definition noPackageSample :: "item list" where
  "noPackageSample =
     [messageItem ''Command'' [oneOfItem [fieldItem ''Foo'' ''foo'' ''1'']],
      enumItem ''Kind'',
      messageItem ''Foo'' [fieldItem ''int32'' ''x'' ''1'']]"






text \<open>The parse results of a text, when the parser returns.\<close>

definition parsedItems :: "string \<Rightarrow> item list option" where
  "parsedItems contents =
     (case ZeroOrMore topLevelStatement ([], expandtabs contents) of
        Ok parseResults l \<Rightarrow> Some parseResults
      | _ \<Rightarrow> None)"

text \<open>The schema of the round-trip scenario of the specification.\<close>

definition schema1 :: string where
  "schema1 = ''package my.pkg;'' @ [newline] @
             ''message Command {'' @ [newline] @
             ''  oneof id {'' @ [newline] @
             ''    Foo foo = 1;'' @ [newline] @
             ''  }'' @ [newline] @
             ''}'' @ [newline] @
             ''message Foo { int32 x = 1; }'' @ [newline]"

section \<open>Sample schemas\<close>

text \<open>The sample parse results are what the grammar yields for these schemas.\<close>

lemma fieldsSample_parsed:
  "parsedItems ''message A { message B { int32 x = 1; } oneof o { B b = 2; } int32 y = 4; }''
     = Some fieldsSample"
  by code_simp

lemma orderSample_parsed:
  "parsedItems ''message A { message B { enum E { } E e = 1; } enum F { } } enum G { }''
     = Some orderSample"
  by code_simp

lemma duplicateSample_parsed:
  "parsedItems ''message M { int32 x = 1; oneof o { A y = 2; B x = 3; } int32 y = 4; }''
     = Some [messageItem ''M'' duplicateSample]"
  by code_simp

lemma twoCommands_parsed:
  "parsedItems ''message Command { oneof id { Foo foo = 1; } } message Foo { } message Command { oneof id { Bar bar = 2; } }''
     = Some twoCommands"
  by code_simp

lemma noPackageSample_parsed:
  "parsedItems ''message Command { oneof id { Foo foo = 1; } } enum Kind { A = 0; } message Foo { int32 x = 1; }''
     = Some noPackageSample"
  by code_simp

section \<open>Round trip\<close>

text \<open>
  C1, as stated (the message \<open>My_Pkg_Command\<close> without fields), fails: the field
  \<open>foo\<close> of the oneof body is recorded in the fields of \<open>My_Pkg_Command\<close>.
\<close>

theorem round_trip_command_has_fields:
  "parseFile schema1 \<noteq>
     Inr ([Message_init ''My_Pkg_Command'',
           \<lparr>msg_id = ''My_Pkg_Foo'', msg_fields = [(''x'', ''1'')]\<rparr>],
          Some \<lparr>commandId = ''My_Pkg_Command'', serviceId = ''my.pkg.Command'',
                 oneOf = [\<lparr>entry_id = ''foo'', entry_type = ''My_Pkg_Foo'',
                          entry_number = ''1''\<rparr>]\<rparr>,
          None)"
  by code_simp

text \<open>
  C1, amended: for the schema of the round-trip scenario, \<open>parseFile\<close> returns the
  messages \<open>My_Pkg_Command\<close> with fields \<open>{"foo": "1"}\<close> and \<open>My_Pkg_Foo\<close> with fields
  \<open>{"x": "1"}\<close>, the command \<open>My_Pkg_Command\<close> with service id \<open>my.pkg.Command\<close>
  and the single alternative \<open>foo\<close> of type \<open>My_Pkg_Foo\<close> and number \<open>1\<close>, and no
  event.
\<close>

theorem round_trip:
  "parseFile schema1 =
     Inr ([\<lparr>msg_id = ''My_Pkg_Command'', msg_fields = [(''foo'', ''1'')]\<rparr>,
           \<lparr>msg_id = ''My_Pkg_Foo'', msg_fields = [(''x'', ''1'')]\<rparr>],
          Some \<lparr>commandId = ''My_Pkg_Command'', serviceId = ''my.pkg.Command'',
                 oneOf = [\<lparr>entry_id = ''foo'', entry_type = ''My_Pkg_Foo'',
                          entry_number = ''1''\<rparr>]\<rparr>,
          None)"
  by code_simp

section \<open>The flat message list\<close>

lemma addFields_Nil [simp]: "addFields m [] = m"
  by (simp add: addFields_def)

lemma addFields_append [simp]: "addFields m (fs @ gs) = addFields (addFields m fs) gs"
  by (simp add: addFields_def)

lemma addFields_single [simp]: "addFields m [(i, n)] = addField m i n"
  by (simp add: addFields_def)

lemma msg_id_addField [simp]: "msg_id (addField m i n) = msg_id m"
  by (simp add: addField_def)

lemma msg_id_addFields [simp]: "msg_id (addFields m fs) = msg_id m"
  by (induction fs arbitrary: m) (auto simp: addFields_def)

lemma snd_extractEnumDefn [simp]: "snd (extractEnumDefn item baseName st) = snd st"
  by (simp add: extractEnumDefn_def split: option.splits)


lemma fst_extractFieldDefn [simp]: "fst (extractFieldDefn item st) = fst st"
  by (simp add: extractFieldDefn_def split: option.splits)




lemma idPrefix_Some [simp]: "idPrefix b (Some m) = msg_id m @ ''.''"
  by (simp add: idPrefix_def)

lemma idPrefix_addFields [simp]:
  "idPrefix b (map_option (\<lambda>p. addFields p fs) parentMessage) = idPrefix b parentMessage"
  by (cases parentMessage) (simp_all add: idPrefix_def)

lemma msg_id_Message_init [simp]: "msg_id (Message_init i) = i"
  by (simp add: Message_init_def)














section \<open>Uniqueness of ids\<close>














section \<open>Containers\<close>

lemma containerCommand_isContainer:
  "isContainer name item \<Longrightarrow>
     (case (MSG_ID_RES item, MSG_BODY_RES item) of
        (Some n, Some body) \<Rightarrow>
          (if n = name then
             (let cmdId = base @ ''_'' @ n; sid = pkg @ ''.'' @ n
              in Some (extractCmdContent body (Command_init cmdId sid) messages))
           else cmd)
      | _ \<Rightarrow> cmd) = containerCommand item pkg base messages"
  by (auto simp: isContainer_def containerCommand_def)

lemma not_isContainer:
  "\<not> isContainer name item \<Longrightarrow>
     (case (MSG_ID_RES item, MSG_BODY_RES item) of
        (Some n, Some body) \<Rightarrow>
          (if n = name then
             (let cmdId = base @ ''_'' @ n; sid = pkg @ ''.'' @ n
              in Some (extractCmdContent body (Command_init cmdId sid) messages))
           else cmd)
      | _ \<Rightarrow> cmd) = cmd"
  by (auto simp: isContainer_def split: option.splits)

lemma extractCmd_loop_filter:
  "extractCmd_loop name items pkg base messages cmd =
     (if filter (isContainer name) items = [] then cmd
      else containerCommand (last (filter (isContainer name) items)) pkg base messages)"
proof (induction items arbitrary: cmd)
  case Nil
  then show ?case by simp
next
  case (Cons item items)
  show ?case
  proof (cases "isContainer name item")
    case True
    show ?thesis
      unfolding extractCmd_loop.simps containerCommand_isContainer[OF True] Cons.IH
      using True by simp
  next
    case False
    show ?thesis
      unfolding extractCmd_loop.simps not_isContainer[OF False] Cons.IH
      using False by simp
  qed
qed

text \<open>
  C3: when two or more top-level items are message definitions with the role name,
  \<open>extractCmd\<close> returns the \<open>Command\<close> built from the last of them, and not \<open>None\<close>.
\<close>

theorem extractCmd_last_wins:
  assumes "2 \<le> length (filter (isContainer name) parseResults)"
  shows "extractCmd name parseResults packageName baseName messages =
           containerCommand (last (filter (isContainer name) parseResults))
             packageName baseName messages
         \<and> extractCmd name parseResults packageName baseName messages \<noteq> None"
proof -
  let ?cs = "filter (isContainer name) parseResults"
  have ne: "?cs \<noteq> []" using assms by auto
  then have "last ?cs \<in> set ?cs" by (rule last_in_set)
  then have "isContainer name (last ?cs)" by simp
  then have "containerCommand (last ?cs) packageName baseName messages \<noteq> None"
    by (auto simp: isContainer_def containerCommand_def)
  then show ?thesis
    using ne by (simp add: extractCmd_def extractCmd_loop_filter)
qed

theorem extractCmd_last_wins_witness:
  "extractCmd ''Command'' twoCommands ''p'' ''P'' [] =
     Some \<lparr>commandId = ''P_Command'', serviceId = ''p.Command'',
            oneOf = [\<lparr>entry_id = ''bar'', entry_type = ''Bar'', entry_number = ''2''\<rparr>]\<rparr>"
proof -
  have "2 \<le> length (filter (isContainer ''Command'') twoCommands)"
    by (simp add: twoCommands_def isContainer_def messageItem_def)
  from extractCmd_last_wins[OF this, of "''p''" "''P''" "[]"]
  show ?thesis
    by (simp add: twoCommands_def isContainer_def messageItem_def oneOfItem_def fieldItem_def
          containerCommand_def Command_init_def addOneOf_def normalizeType_def)
qed










section \<open>Type resolution\<close>








section \<open>Identifiers and keywords\<close>

text \<open>
  C4, as stated, fails: \<open>enum\<close>, \<open>message\<close> and \<open>package\<close> are accepted as a message
  name, a field type and a field name.
\<close>

theorem keyword_accepted_as_name: "parseFile ''message enum { message package = 1; }'' =
   Inr ([\<lparr>msg_id = ''_enum'', msg_fields = [(''package'', ''1'')]\<rparr>], None, None)"
  by code_simp

text \<open>
  C4, amended: \<open>ident\<close> is a plain word token and accepts the spelling of every
  reserved keyword; in a position that requires an identifier, such as the name of a
  message, a keyword spelling is taken as the identifier. (A keyword is matched as its
  own token type only where the grammar tries that keyword before an identifier.)
\<close>

theorem keyword_spellings_are_identifiers:
  "\<forall>kw\<in>set kwds.
      ident ([], kw) = Ok kw (rev kw, [])
    \<and> parseFile (''message '' @ kw @ '' { }'') = Inr ([Message_init (''_'' @ kw)], None, None)"
  by code_simp

theorem keyword_spellings_are_identifiers_witness:
  "ident ([], ''enum'') = Ok ''enum'' (''mune'', [])
   \<and> parseFile ''message enum { }'' = Inr ([Message_init ''_enum''], None, None)"
  using keyword_spellings_are_identifiers by (simp add: kwds_def)

section \<open>Parse errors\<close>


theorem unknown_text_is_no_error: "parseFile ''hello'' = Inr ([], None, None)"
  by code_simp

theorem unterminated_body_example: "parseFile ''message A { int32 x = 1;'' = Inl (Raised_ParseSyntaxException 24)"
  by code_simp



lemma preParse_Nil [simp]: "preParse (d, []) = (d, [])"
  by (subst preParse.simps) (simp add: cppStyleComment_def skipWhitespace_def)





lemma Keyword_eof [simp]: "kw \<noteq> [] \<Longrightarrow> Keyword kw (d, []) = ParseException (length d)"
  by (cases kw) (simp_all add: Keyword_def position_def)

lemma Literal_eof [simp]: "s \<noteq> [] \<Longrightarrow> Literal s (d, []) = ParseException (length d)"
  by (cases s) (simp_all add: Literal_def position_def)

lemma Suppress_eof [simp]: "s \<noteq> [] \<Longrightarrow> Suppress s (d, []) = ParseException (length d)"
  by (simp add: Suppress_def)

lemma Word_eof [simp]: "Word i b (d, []) = ParseException (length d)"
  by (simp add: Word_def position_def)

lemma integer_eof [simp]: "Regex_integer (d, []) = ParseException (length d)"
  by (simp add: Regex_integer_def position_def)
















end
